theory Spec2Isabelle
  imports
    Complex_Main
    "HOL-Library.Sublist"
    "HOL-Library.AList"
    "HOL-Library.Char_ord"
    "HOL-Library.List_Lexorder"
begin

section \<open>Python strings\<close>

text \<open>
  Strings are byte lists. \<open>str.lower\<close>, \<open>str.upper\<close> and \<open>str.strip\<close> are modelled on
  the ASCII range (letters \<open>A\<close>..\<open>Z\<close>, the whitespace bytes 9..13, 28..31 and 32); bytes
  outside that range are left unchanged.
\<close>

text \<open>
  Upper and lower case ASCII letters differ in bit 5 (value 32) only, so lowering a byte
  in 65..90 sets that bit and raising a byte in 97..122 clears it.
\<close>

definition lower_char :: "char \<Rightarrow> char" where
  "lower_char c =
     (let n = (of_char c :: nat) in
      if 65 \<le> n \<and> n \<le> 90
      then (case c of Char b0 b1 b2 b3 b4 b5 b6 b7 \<Rightarrow> Char b0 b1 b2 b3 b4 True b6 b7)
      else c)"

definition upper_char :: "char \<Rightarrow> char" where
  "upper_char c =
     (let n = (of_char c :: nat) in
      if 97 \<le> n \<and> n \<le> 122
      then (case c of Char b0 b1 b2 b3 b4 b5 b6 b7 \<Rightarrow> Char b0 b1 b2 b3 b4 False b6 b7)
      else c)"

definition py_lower :: "string \<Rightarrow> string" where
  "py_lower s = map lower_char s"

definition py_upper :: "string \<Rightarrow> string" where
  "py_upper s = map upper_char s"

definition is_space :: "char \<Rightarrow> bool" where
  "is_space c =
     (let n = (of_char c :: nat) in (9 \<le> n \<and> n \<le> 13) \<or> (28 \<le> n \<and> n \<le> 32))"

definition py_strip :: "string \<Rightarrow> string" where
  "py_strip s = rev (dropWhile is_space (rev (dropWhile is_space s)))"

text \<open>\<open>p in s\<close> for strings: \<open>p\<close> occurs in \<open>s\<close> as a contiguous block.\<close>

fun py_in :: "string \<Rightarrow> string \<Rightarrow> bool" where
  "py_in p [] = (p = [])"
| "py_in p (c # cs) = (prefix p (c # cs) \<or> py_in p cs)"

text \<open>\<open>len(s.split())\<close>: the number of maximal runs of non-whitespace bytes.\<close>

fun count_words :: "bool \<Rightarrow> string \<Rightarrow> nat" where
  "count_words inside [] = 0"
| "count_words inside (c # cs) =
     (if is_space c then count_words False cs
      else (if inside then 0 else 1) + count_words True cs)"

definition py_split_len :: "string \<Rightarrow> nat" where
  "py_split_len s = count_words False s"

text \<open>\<open>s.startswith(p)\<close>.\<close>

definition py_startswith :: "string \<Rightarrow> string \<Rightarrow> bool" where
  "py_startswith s p = prefix p s"

section \<open>Python values and dictionaries\<close>

text \<open>
  The values a context or a parameter mapping holds: \<open>None\<close>, booleans, integers, strings,
  lists and string-keyed dictionaries. A dictionary is an association list in insertion
  order; assignment to an existing key keeps its position, as in Python.
\<close>

datatype pyval =
    PNone
  | PBool bool
  | PInt int
  | PStr string
  | PList "pyval list"
  | PDict "(string \<times> pyval) list"

type_synonym pydict = "(string \<times> pyval) list"

text \<open>\<open>bool(v)\<close>.\<close>

fun truthy :: "pyval \<Rightarrow> bool" where
  "truthy PNone = False"
| "truthy (PBool b) = b"
| "truthy (PInt i) = (i \<noteq> 0)"
| "truthy (PStr s) = (s \<noteq> [])"
| "truthy (PList xs) = (xs \<noteq> [])"
| "truthy (PDict kvs) = (kvs \<noteq> [])"

text \<open>
  \<open>k in d\<close>, \<open>d.get(k, default)\<close>, \<open>d.get(k)\<close>, \<open>d[k] = v\<close> and \<open>d.update(e)\<close>.
\<close>

definition has_key :: "pydict \<Rightarrow> string \<Rightarrow> bool" where
  "has_key d k = (map_of d k \<noteq> None)"

definition dict_get_or :: "pydict \<Rightarrow> string \<Rightarrow> pyval \<Rightarrow> pyval" where
  "dict_get_or d k dflt = (case map_of d k of None \<Rightarrow> dflt | Some v \<Rightarrow> v)"

definition dict_get :: "pydict \<Rightarrow> string \<Rightarrow> pyval" where
  "dict_get d k = dict_get_or d k PNone"

definition dict_set :: "pydict \<Rightarrow> string \<Rightarrow> pyval \<Rightarrow> pydict" where
  "dict_set d k v = AList.update k v d"

definition dict_update :: "pydict \<Rightarrow> pydict \<Rightarrow> pydict" where
  "dict_update d e = fold (\<lambda>kv acc. AList.update (fst kv) (snd kv) acc) e d"

section \<open>Capability model\<close>

datatype ToolResultStatus = SUCCESS | ERROR | PARTIAL | SKIPPED

fun status_value :: "ToolResultStatus \<Rightarrow> string" where
  "status_value SUCCESS = ''success''"
| "status_value ERROR = ''error''"
| "status_value PARTIAL = ''partial''"
| "status_value SKIPPED = ''skipped''"

record ToolCapability =
  name :: string
  description :: string
  parameters :: pydict
  use_cases :: "string list"
  data_sources :: "string list"
  prerequisites :: "string list"
  confidence_keywords :: "string list"

text \<open>
  \<open>ToolResult\<close> and \<open>ToolAction\<close>. The generated identifiers (\<open>uuid4\<close>), \<open>metadata\<close>,
  \<open>execution_time\<close> and \<open>depends_on\<close> play no part in the control flow and are left out.
  An absent \<open>data\<close> or \<open>error\<close> is \<open>PNone\<close> respectively \<open>None\<close>.
\<close>

record ToolResult =
  tool_name :: string
  status :: ToolResultStatus
  data :: pyval
  error :: "string option"

record ToolAction =
  action_tool_name :: string
  action_parameters :: pydict
  priority :: int

section \<open>Exceptions and observable effects\<close>

text \<open>
  An exception is kept as a value. Only its class and \<open>str(e)\<close> matter to the code
  under study; \<open>ToolError\<close> stands for any exception raised inside a tool or by the
  backend client. The message texts of the interpreter's own exceptions are abbreviated.
\<close>

datatype exn = TypeError string | KeyError string | AttributeError string | ToolError string

fun exn_str :: "exn \<Rightarrow> string" where
  "exn_str (TypeError m) = m"
| "exn_str (KeyError m) = m"
| "exn_str (AttributeError m) = m"
| "exn_str (ToolError m) = m"

text \<open>
  The four requests the agent sends to the language-model backend, each with the data its
  prompt is built from: the planning request (user request, name and confidence of every
  recommended tool, context), the sufficiency request (user request and, per successful
  result, tool name and whether data is available), the synthesis request (user request,
  per result its tool, status, data and error, and the context) and the conversational
  request.
\<close>

datatype llm_call =
    PlanCall string "(string \<times> real) list" pydict
  | SufficiencyCall string "(string \<times> bool) list"
  | SynthesizeCall string "(string \<times> string \<times> pyval \<times> string option) list" pydict
  | ConversationalCall string

text \<open>
  The backend either raises or answers with a message whose content may be \<open>None\<close>.
\<close>

datatype llm_reply = LLMRaises exn | LLMContent "string option"

text \<open>
  The effects of a run, in the order they happen: a request to the backend, a call of a
  tool's \<open>execute\<close> (with the action it serves, the validated parameters and the context
  dictionary as it stands at the call), and the log line that opens an iteration of the
  orchestration loop. The backend and the tools are external; what they return may depend
  on everything that happened before, so they are functions of the effects so far.
\<close>

datatype event =
    LLMRequest llm_call
  | ToolExecution ToolAction pydict pydict
  | IterationLog nat

type_synonym trace = "event list"

section \<open>Tools and applicability scoring\<close>

text \<open>
  A tool instance: the class that decides which \<open>should_use\<close> runs, the \<open>enabled\<close> flag
  read from its configuration, the \<open>is_configured\<close> flag of the messaging and
  knowledge-base tools, its capabilities, and its two operations. \<open>Inl\<close> is a raised
  exception.
\<close>

datatype tool_class =
    DefaultTool
  | MCPDatabaseTool
  | DriveSearchTool
  | DataAnalysisTool
  | SummaryTool
  | NotionTool
  | SlackTool

record Tool =
  tool_class :: tool_class
  enabled :: bool
  is_configured :: bool
  capabilities :: ToolCapability
  validate_parameters :: "pydict \<Rightarrow> exn + pydict"
  execute :: "trace \<Rightarrow> pydict \<Rightarrow> exn + ToolResult"

text \<open>\<open>sum(1 for k in keywords if k in text)\<close>.\<close>

definition count_matches :: "string list \<Rightarrow> string \<Rightarrow> nat" where
  "count_matches keywords text = length (filter (\<lambda>k. py_in k text) keywords)"

text \<open>
  \<open>BaseTool.should_use\<close>. Scores are Python floats; they are modelled as exact reals.
\<close>

definition base_should_use :: "Tool \<Rightarrow> string \<Rightarrow> pydict \<Rightarrow> real" where
  "base_should_use t intent context =
     (if \<not> enabled t then 0
      else
        let intent_lower = py_lower intent;
            caps = capabilities t;
            use_case_matches =
              length (filter (\<lambda>use_case. py_in (py_lower use_case) intent_lower)
                        (use_cases caps));
            keyword_matches =
              length (filter (\<lambda>keyword. py_in (py_lower keyword) intent_lower)
                        (confidence_keywords caps));
            prereq_penalty =
              fold (\<lambda>prereq penalty.
                      if \<not> has_key context prereq then penalty + 2 / 10 else penalty)
                   (prerequisites caps) 0;
            total_keywords = length (use_cases caps) + length (confidence_keywords caps);
            base_score =
              (if total_keywords = 0 then 1 / 10
               else real (use_case_matches + keyword_matches) / real total_keywords);
            final_score = max 0 (base_score - prereq_penalty)
        in min 1 final_score)"

text \<open>\<open>MCPDatabaseTool.should_use\<close>.\<close>

definition mcp_should_use :: "Tool \<Rightarrow> string \<Rightarrow> pydict \<Rightarrow> real" where
  "mcp_should_use t intent context =
     (let base_confidence = base_should_use t intent context;
          base_confidence =
            (if truthy (dict_get context ''user_id'') \<and> truthy (dict_get context ''date'')
             then base_confidence + 3 / 10 else base_confidence);
          data_keywords = [''data'', ''activity'', ''history'', ''user'', ''database'', ''query''];
          intent_lower = py_lower intent;
          keyword_matches = count_matches data_keywords intent_lower;
          base_confidence =
            (if keyword_matches > 0
             then base_confidence + (real keyword_matches / real (length data_keywords)) * (2 / 10)
             else base_confidence)
      in min 1 base_confidence)"

text \<open>\<open>GoogleDriveSearchTool.should_use\<close>.\<close>

definition drive_should_use :: "Tool \<Rightarrow> string \<Rightarrow> pydict \<Rightarrow> real" where
  "drive_should_use t intent context =
     (let base_confidence = base_should_use t intent context;
          doc_keywords =
            [''document'', ''guide'', ''guideline'', ''template'', ''policy'',
             ''manual'', ''example'', ''format'', ''standard'', ''documentation''];
          intent_lower = py_lower intent;
          keyword_matches = count_matches doc_keywords intent_lower;
          base_confidence =
            (if keyword_matches > 0
             then base_confidence + (real keyword_matches / real (length doc_keywords)) * (3 / 10)
             else base_confidence);
          data_keywords = [''user_id'', ''database'', ''activity'', ''metrics''];
          data_matches = count_matches data_keywords intent_lower;
          base_confidence =
            (if data_matches > 0 then base_confidence - 2 / 10 else base_confidence)
      in max 0 (min 1 base_confidence))"

text \<open>\<open>DataAnalysisTool.should_use\<close>.\<close>

definition analysis_should_use :: "Tool \<Rightarrow> string \<Rightarrow> pydict \<Rightarrow> real" where
  "analysis_should_use t intent context =
     (let base_confidence = base_should_use t intent context;
          base_confidence =
            (if truthy (dict_get context ''tool_result_database_query'') \<or> has_key context ''data''
             then base_confidence + 4 / 10 else base_confidence);
          analysis_keywords = [''analyze'', ''process'', ''insights'', ''trends'', ''summary''];
          intent_lower = py_lower intent;
          keyword_matches = count_matches analysis_keywords intent_lower;
          base_confidence =
            (if keyword_matches > 0
             then base_confidence
                    + (real keyword_matches / real (length analysis_keywords)) * (2 / 10)
             else base_confidence)
      in min 1 base_confidence)"

text \<open>\<open>SummaryTool.should_use\<close>.\<close>

definition summary_should_use :: "Tool \<Rightarrow> string \<Rightarrow> pydict \<Rightarrow> real" where
  "summary_should_use t intent context =
     (let base_confidence = base_should_use t intent context;
          base_confidence =
            (if truthy (dict_get context ''tool_result_data_analysis'')
                \<or> has_key context ''processed_data''
             then base_confidence + 4 / 10 else base_confidence);
          summary_keywords = [''summary'', ''report'', ''overview'', ''digest'', ''generate''];
          intent_lower = py_lower intent;
          keyword_matches = count_matches summary_keywords intent_lower;
          base_confidence =
            (if keyword_matches > 0
             then base_confidence
                    + (real keyword_matches / real (length summary_keywords)) * (3 / 10)
             else base_confidence);
          base_confidence =
            (if list_ex (\<lambda>term. py_in term intent_lower) [''weekly'', ''daily'', ''monthly'']
             then base_confidence + 2 / 10 else base_confidence)
      in min 1 base_confidence)"

text \<open>\<open>NotionTool.should_use\<close>.\<close>

definition notion_should_use :: "Tool \<Rightarrow> string \<Rightarrow> pydict \<Rightarrow> real" where
  "notion_should_use t intent context =
     (if \<not> is_configured t then 0
      else
        let intent_lower = py_lower intent;
            high_confidence =
              [''notion'', ''team docs'', ''project docs'', ''meeting notes'', ''wiki''];
            high_matches = count_matches high_confidence intent_lower;
            medium_confidence =
              [''team'', ''project'', ''collaboration'', ''knowledge'', ''docs''];
            medium_matches = count_matches medium_confidence intent_lower
        in if high_matches > 0 then min (9 / 10) (7 / 10 + real high_matches * (1 / 10))
           else if medium_matches > 0 then min (6 / 10) (3 / 10 + real medium_matches * (1 / 10))
           else 1 / 10)"

text \<open>\<open>SlackTool.should_use\<close>.\<close>

definition slack_should_use :: "Tool \<Rightarrow> string \<Rightarrow> pydict \<Rightarrow> real" where
  "slack_should_use t intent context =
     (if \<not> is_configured t then 0
      else
        let intent_lower = py_lower intent;
            high_confidence =
              [''slack'', ''notify'', ''send message'', ''alert team'', ''update team''];
            high_matches = count_matches high_confidence intent_lower;
            medium_confidence =
              [''message'', ''communicate'', ''tell'', ''inform'', ''share'', ''broadcast''];
            medium_matches = count_matches medium_confidence intent_lower;
            communication_indicators =
              [''team'', ''group'', ''channel'', ''everyone'', ''colleagues''];
            comm_matches = count_matches communication_indicators intent_lower
        in if high_matches > 0 then min (9 / 10) (7 / 10 + real high_matches * (1 / 10))
           else if medium_matches > 0 \<and> comm_matches > 0
             then min (7 / 10)
                    (4 / 10 + real medium_matches * (1 / 10) + real comm_matches * (1 / 10))
           else if medium_matches > 0 then min (5 / 10) (2 / 10 + real medium_matches * (1 / 10))
           else 1 / 10)"

text \<open>Method dispatch: the \<open>should_use\<close> of the tool's class.\<close>

definition should_use :: "Tool \<Rightarrow> string \<Rightarrow> pydict \<Rightarrow> real" where
  "should_use t intent context =
     (case tool_class t of
        DefaultTool \<Rightarrow> base_should_use t intent context
      | MCPDatabaseTool \<Rightarrow> mcp_should_use t intent context
      | DriveSearchTool \<Rightarrow> drive_should_use t intent context
      | DataAnalysisTool \<Rightarrow> analysis_should_use t intent context
      | SummaryTool \<Rightarrow> summary_should_use t intent context
      | NotionTool \<Rightarrow> notion_should_use t intent context
      | SlackTool \<Rightarrow> slack_should_use t intent context)"

section \<open>Tool registry\<close>

text \<open>
  The registry's \<open>_tools\<close> dictionary, in insertion order. Registering a name that is
  already present replaces the instance and keeps its position.
\<close>

record ToolRegistry =
  tools :: "(string \<times> Tool) list"

definition register_tool :: "ToolRegistry \<Rightarrow> Tool \<Rightarrow> ToolRegistry" where
  "register_tool reg tool =
     reg\<lparr>tools := AList.update (name (capabilities tool)) tool (tools reg)\<rparr>"

definition get_tool :: "ToolRegistry \<Rightarrow> string \<Rightarrow> Tool option" where
  "get_tool reg tname = map_of (tools reg) tname"

definition get_enabled_tools :: "ToolRegistry \<Rightarrow> (string \<times> Tool) list" where
  "get_enabled_tools reg = filter (\<lambda>entry. enabled (snd entry)) (tools reg)"

text \<open>
  \<open>list.sort(key=..., reverse=True)\<close>: the list is reversed, sorted by a stable
  ascending sort, and reversed again.
\<close>

definition sort_reverse :: "('a \<Rightarrow> real) \<Rightarrow> 'a list \<Rightarrow> 'a list" where
  "sort_reverse key xs = rev (sort_key key (rev xs))"

definition get_tools_for_intent ::
  "ToolRegistry \<Rightarrow> string \<Rightarrow> pydict \<Rightarrow> real \<Rightarrow> (Tool \<times> real) list" where
  "get_tools_for_intent reg intent context min_conf =
     (let tool_scores =
            fold (\<lambda>tool tool_scores.
                    let confidence = should_use tool intent context
                    in if confidence \<ge> min_conf then tool_scores @ [(tool, confidence)]
                       else tool_scores)
                 (map snd (get_enabled_tools reg)) []
      in sort_reverse snd tool_scores)"

section \<open>Tool selector\<close>

record ToolSelector =
  min_confidence :: real

definition check_prerequisites :: "Tool \<Rightarrow> pydict \<Rightarrow> bool" where
  "check_prerequisites tool context =
     list_all (\<lambda>prereq. has_key context prereq) (prerequisites (capabilities tool))"

text \<open>
  \<open>x in v\<close> for a string \<open>x\<close> and a value \<open>v\<close>: membership in a list, substring of a
  string, key of a dictionary; any other value is not iterable.
\<close>

fun py_contains :: "pyval \<Rightarrow> string \<Rightarrow> exn + bool" where
  "py_contains (PList xs) x = Inr (PStr x \<in> set xs)"
| "py_contains (PStr s) x = Inr (py_in x s)"
| "py_contains (PDict kvs) x = Inr (has_key kvs x)"
| "py_contains v x = Inl (TypeError ''argument is not iterable'')"

text \<open>
  \<open>ToolSelector._adjust_confidence\<close>. \<open>context.get("user_request", "").lower()\<close> raises
  when the stored value is not a string, and \<open>name in recent_tools\<close> raises when the
  stored value is not iterable.
\<close>

definition adjust_confidence :: "Tool \<Rightarrow> real \<Rightarrow> pydict \<Rightarrow> exn + real" where
  "adjust_confidence tool base_confidence context =
     (let adjusted = base_confidence;
          tname = name (capabilities tool);
          adjusted =
            (if tname \<in> set [''database_query'', ''user_data_tool'']
                \<and> has_key context ''user_id'' \<and> has_key context ''date''
             then adjusted + 2 / 10 else adjusted);
          boosted =
            (if tname \<in> set [''drive_search'', ''google_drive_tool'']
             then (case dict_get_or context ''user_request'' (PStr []) of
                     PStr request \<Rightarrow>
                       let doc_keywords =
                             [''guide'', ''documentation'', ''template'', ''policy'', ''format''];
                           request_lower = py_lower request
                       in Inr (if list_ex (\<lambda>keyword. py_in keyword request_lower) doc_keywords
                               then adjusted + 15 / 100 else adjusted)
                   | _ \<Rightarrow> Inl (AttributeError ''object has no attribute lower''))
             else Inr adjusted)
      in case boosted of
           Inl e \<Rightarrow> Inl e
         | Inr adjusted \<Rightarrow>
             (case py_contains (dict_get_or context ''recent_tool_usage'' (PList [])) tname of
                Inl e \<Rightarrow> Inl e
              | Inr recent \<Rightarrow>
                  let adjusted = (if recent then adjusted - 1 / 10 else adjusted)
                  in Inr (max 0 (min 1 adjusted))))"

text \<open>\<open>ToolSelector._apply_contextual_filtering\<close>: the loop stops at the first exception.\<close>

fun apply_contextual_filtering ::
  "ToolSelector \<Rightarrow> (Tool \<times> real) list \<Rightarrow> pydict \<Rightarrow> (Tool \<times> real) list
     \<Rightarrow> exn + (Tool \<times> real) list" where
  "apply_contextual_filtering sel [] context filtered_tools = Inr filtered_tools"
| "apply_contextual_filtering sel ((tool, confidence) # rest) context filtered_tools =
     (if check_prerequisites tool context
      then (case adjust_confidence tool confidence context of
              Inl e \<Rightarrow> Inl e
            | Inr adjusted_confidence \<Rightarrow>
                apply_contextual_filtering sel rest context
                  (if adjusted_confidence \<ge> min_confidence sel
                   then filtered_tools @ [(tool, adjusted_confidence)]
                   else filtered_tools))
      else apply_contextual_filtering sel rest context filtered_tools)"

definition select_tools ::
  "ToolSelector \<Rightarrow> ToolRegistry \<Rightarrow> string \<Rightarrow> pydict \<Rightarrow> exn + (Tool \<times> real) list" where
  "select_tools sel reg user_request context =
     (let suitable_tools =
            get_tools_for_intent reg user_request context (min_confidence sel)
      in apply_contextual_filtering sel suitable_tools context [])"

section \<open>External collaborators\<close>

text \<open>
  The regular expressions of the entity extractor, in the order the source lists them:
  five date patterns and three user-identifier patterns.
\<close>

datatype pattern =
    DateISO | DateSlash | DateDay | DateWeek | DateMonth
  | UserIdLabel | ForUser | Email

text \<open>
  What the code obtains from outside the repository. \<open>llm\<close> is the chat-completion
  client, answering a request given the effects so far. \<open>parse_actions\<close> is the search
  for a bracketed JSON array in the reply, \<open>json.loads\<close> and the construction of the
  \<open>ToolAction\<close> objects; \<open>None\<close> means that no array was found or that any of the
  three raised. \<open>re_search\<close> is \<open>re.search\<close> with \<open>IGNORECASE\<close>, returning group 1.
  \<open>date_offset now n\<close> is the ISO date \<open>n\<close> days after the clock reading \<open>now\<close>,
  \<open>dateutil_parse\<close> the permissive date parser (\<open>None\<close> when it raises), \<open>py_str\<close> the
  built-in \<open>str()\<close> on a value that is not a string, and \<open>clock\<close> the reading of
  \<open>datetime.now().isoformat()\<close>.
\<close>

record Env =
  llm :: "trace \<Rightarrow> llm_call \<Rightarrow> llm_reply"
  parse_actions :: "string \<Rightarrow> ToolAction list option"
  re_search :: "pattern \<Rightarrow> string \<Rightarrow> string option"
  date_offset :: "string \<Rightarrow> int \<Rightarrow> string"
  dateutil_parse :: "string \<Rightarrow> string option"
  py_str :: "pyval \<Rightarrow> string"
  clock :: "trace \<Rightarrow> string"

section \<open>Context manager\<close>

text \<open>
  Keys of the \<open>session_contexts\<close> dictionary: the hashable values. \<open>True\<close> and
  \<open>False\<close> hash and compare as \<open>1\<close> and \<open>0\<close>; lists and dictionaries are unhashable.
\<close>

datatype pykey = KNone | KInt int | KStr string

fun key_of :: "pyval \<Rightarrow> pykey option" where
  "key_of PNone = Some KNone"
| "key_of (PBool b) = Some (KInt (if b then 1 else 0))"
| "key_of (PInt i) = Some (KInt i)"
| "key_of (PStr s) = Some (KStr s)"
| "key_of (PList xs) = None"
| "key_of (PDict kvs) = None"

record SessionContext =
  history :: "pyval list"
  recent_tools :: "string list"
  preferences :: pydict
  created_at :: string

record ContextManager =
  max_history_size :: int
  session_contexts :: "(pykey \<times> SessionContext) list"

text \<open>\<open>ContextManager(max_history_size)\<close>; the default size is 50.\<close>

definition new_context_manager :: "int \<Rightarrow> ContextManager" where
  "new_context_manager cap = \<lparr>max_history_size = cap, session_contexts = []\<rparr>"

text \<open>The slice \<open>xs[-n:]\<close> for an integer \<open>n\<close>; \<open>xs[-0:]\<close> is \<open>xs[0:]\<close>.\<close>

definition slice_from_neg :: "int \<Rightarrow> 'a list \<Rightarrow> 'a list" where
  "slice_from_neg n xs =
     (if n > 0 then drop (length xs - nat n) xs else drop (nat (- n)) xs)"

fun first_match :: "Env \<Rightarrow> pattern list \<Rightarrow> string \<Rightarrow> string option" where
  "first_match env [] text = None"
| "first_match env (p # ps) text =
     (case re_search env p text of
        Some group1 \<Rightarrow> Some group1
      | None \<Rightarrow> first_match env ps text)"

text \<open>\<open>ContextManager._parse_date\<close>; every exception is caught and gives \<open>None\<close>.\<close>

definition parse_date :: "Env \<Rightarrow> string \<Rightarrow> string \<Rightarrow> string option" where
  "parse_date env now date_str =
     (let l = py_lower date_str in
      if l = ''today'' then Some (date_offset env now 0)
      else if l = ''yesterday'' then Some (date_offset env now (- 1))
      else if l = ''tomorrow'' then Some (date_offset env now 1)
      else if py_in ''last week'' l then Some (date_offset env now (- 7))
      else if py_in ''this week'' l then Some (date_offset env now 0)
      else if py_in ''next week'' l then Some (date_offset env now 7)
      else dateutil_parse env date_str)"

definition data_type_keywords :: "(string \<times> string list) list" where
  "data_type_keywords =
     [(''activity'', [''activity'', ''activities'', ''actions'', ''behavior'']),
      (''preferences'', [''preferences'', ''settings'', ''configuration'']),
      (''history'', [''history'', ''historical'', ''past'', ''previous'']),
      (''summary'', [''summary'', ''report'', ''overview'', ''digest'']),
      (''analysis'', [''analysis'', ''insights'', ''trends'', ''patterns''])]"

text \<open>
  \<open>ContextManager._extract_entities\<close>. The \<open>data_types\<close> list is created by the first
  matching group and extended by the later ones, so it holds the labels of the matching
  groups in table order and is absent when none matches.
\<close>

definition extract_entities :: "Env \<Rightarrow> string \<Rightarrow> string \<Rightarrow> pydict" where
  "extract_entities env now user_request =
     (let entities = [];
          entities =
            (case first_match env [DateISO, DateSlash, DateDay, DateWeek, DateMonth]
                    user_request of
               None \<Rightarrow> entities
             | Some date_str \<Rightarrow>
                 (case parse_date env now date_str of
                    None \<Rightarrow> entities
                  | Some parsed_date \<Rightarrow>
                      if parsed_date \<noteq> []
                      then dict_set (dict_set entities ''date'' (PStr parsed_date))
                             ''original_date_text'' (PStr date_str)
                      else entities));
          entities =
            (case first_match env [UserIdLabel, ForUser, Email] user_request of
               None \<Rightarrow> entities
             | Some group1 \<Rightarrow> dict_set entities ''extracted_user_id'' (PStr group1));
          request_lower = py_lower user_request;
          matching =
            filter (\<lambda>entry. list_ex (\<lambda>keyword. py_in keyword request_lower) (snd entry))
              data_type_keywords
      in if matching = [] then entities
         else dict_set entities ''data_types'' (PList (map (\<lambda>entry. PStr (fst entry)) matching)))"

text \<open>
  \<open>ContextManager.build_context\<close>. \<open>now\<close> is the clock reading of the call. An absent
  or empty \<open>user_id\<close>, \<open>session_id\<close> or \<open>additional_context\<close> is falsy.
\<close>

definition build_context ::
  "ContextManager \<Rightarrow> Env \<Rightarrow> string \<Rightarrow> string \<Rightarrow> string option \<Rightarrow> string option
     \<Rightarrow> pydict option \<Rightarrow> pydict" where
  "build_context cm env now user_request user_id session_id additional_context =
     (let context =
            [(''user_request'', PStr user_request),
             (''timestamp'', PStr now),
             (''session_id'',
                PStr (case session_id of
                        None \<Rightarrow> ''default''
                      | Some sid \<Rightarrow> if sid \<noteq> [] then sid else ''default''))];
          context =
            (case user_id of
               None \<Rightarrow> context
             | Some uid \<Rightarrow> if uid \<noteq> [] then dict_set context ''user_id'' (PStr uid) else context);
          extracted_entities = extract_entities env now user_request;
          context = dict_update context extracted_entities;
          context =
            (case session_id of
               None \<Rightarrow> context
             | Some sid \<Rightarrow>
                 if sid \<noteq> [] then
                   (case map_of (session_contexts cm) (KStr sid) of
                      None \<Rightarrow> context
                    | Some session_context \<Rightarrow>
                        dict_set
                          (dict_set
                             (dict_set context ''conversation_history''
                                (PList (history session_context)))
                             ''recent_tool_usage''
                             (PList (map PStr (recent_tools session_context))))
                          ''user_preferences'' (PDict (preferences session_context)))
                 else context)
      in case additional_context of
           None \<Rightarrow> context
         | Some extra \<Rightarrow> if extra \<noteq> [] then dict_update context extra else context)"

text \<open>\<open>v + 1\<close> for a stored counter, \<open>for x in v\<close>, and \<open>f"{v}"\<close>.\<close>

fun py_incr :: "pyval \<Rightarrow> exn + pyval" where
  "py_incr (PInt n) = Inr (PInt (n + 1))"
| "py_incr (PBool b) = Inr (PInt ((if b then 1 else 0) + 1))"
| "py_incr v = Inl (TypeError ''unsupported operand type for +'')"

fun py_iter :: "pyval \<Rightarrow> exn + pyval list" where
  "py_iter (PList xs) = Inr xs"
| "py_iter (PStr s) = Inr (map (\<lambda>c. PStr [c]) s)"
| "py_iter (PDict kvs) = Inr (map (\<lambda>kv. PStr (fst kv)) kvs)"
| "py_iter v = Inl (TypeError ''object is not iterable'')"

definition py_format :: "Env \<Rightarrow> pyval \<Rightarrow> string" where
  "py_format env v = (case v of PStr s \<Rightarrow> s | _ \<Rightarrow> py_str env v)"

text \<open>\<open>sep.join(xs)\<close>.\<close>

fun py_join :: "string \<Rightarrow> string list \<Rightarrow> string" where
  "py_join sep [] = []"
| "py_join sep [x] = x"
| "py_join sep (x # y # ys) = x @ sep @ py_join sep (y # ys)"

text \<open>
  The first loop of \<open>_extract_preferences\<close>. The preferences dictionary is updated in
  place, so the increments made before an exception stay.
\<close>

fun count_data_types :: "Env \<Rightarrow> pyval list \<Rightarrow> pydict \<Rightarrow> exn option \<times> pydict" where
  "count_data_types env [] prefs = (None, prefs)"
| "count_data_types env (data_type # rest) prefs =
     (let key = ''requested_'' @ py_format env data_type in
      case py_incr (dict_get_or prefs key (PInt 0)) of
        Inl e \<Rightarrow> (Some e, prefs)
      | Inr v \<Rightarrow> count_data_types env rest (dict_set prefs key v))"

text \<open>\<open>ContextManager._extract_preferences\<close>, returning the exception raised, if any.\<close>

definition extract_preferences ::
  "Env \<Rightarrow> pydict \<Rightarrow> ToolResult list \<Rightarrow> pydict \<Rightarrow> exn option \<times> pydict" where
  "extract_preferences env context tool_results prefs =
     (case py_iter (dict_get_or context ''data_types'' (PList [])) of
        Inl e \<Rightarrow> (Some e, prefs)
      | Inr data_types \<Rightarrow>
          (case count_data_types env data_types prefs of
             (Some e, prefs) \<Rightarrow> (Some e, prefs)
           | (None, prefs) \<Rightarrow>
               let successful_tools =
                     map tool_name
                       (filter (\<lambda>result. status_value (status result) = ''success'') tool_results)
               in if length successful_tools > 1 then
                    let combination_key = ''tool_combinations'';
                        prefs =
                          (if \<not> has_key prefs combination_key
                           then dict_set prefs combination_key (PDict []) else prefs);
                        combo_str = py_join '' + '' (sort successful_tools)
                    in (case dict_get prefs combination_key of
                          PDict combos \<Rightarrow>
                            (case py_incr (dict_get_or combos combo_str (PInt 0)) of
                               Inl e \<Rightarrow> (Some e, prefs)
                             | Inr v \<Rightarrow>
                                 (None,
                                  dict_set prefs combination_key
                                    (PDict (dict_set combos combo_str v))))
                        | _ \<Rightarrow> (Some (AttributeError ''object has no attribute get''), prefs))
                  else (None, prefs)))"

definition history_entry :: "pyval \<Rightarrow> pyval \<Rightarrow> ToolResult list \<Rightarrow> pyval" where
  "history_entry ts request tool_results =
     PDict
       [(''timestamp'', ts),
        (''user_request'', request),
        (''tool_results'',
           PList (map (\<lambda>result.
                         PDict [(''tool_name'', PStr (tool_name result)),
                                (''status'', PStr (status_value (status result))),
                                (''has_data'', PBool (data result \<noteq> PNone))])
                      tool_results))]"

text \<open>
  \<open>ContextManager.update_context\<close>. The session state is mutated in place: the result is
  the exception raised, if any, with the manager as the call leaves it. \<open>now\<close> is the
  clock reading used for \<open>created_at\<close>.
\<close>

definition update_context ::
  "ContextManager \<Rightarrow> Env \<Rightarrow> string \<Rightarrow> pydict \<Rightarrow> ToolResult list
     \<Rightarrow> exn option \<times> ContextManager" where
  "update_context cm env now context tool_results =
     (case key_of (dict_get_or context ''session_id'' (PStr ''default'')) of
        None \<Rightarrow> (Some (TypeError ''unhashable type''), cm)
      | Some session_id \<Rightarrow>
          let session_context =
                (case map_of (session_contexts cm) session_id of
                   None \<Rightarrow>
                     \<lparr>history = [], recent_tools = [], preferences = [], created_at = now\<rparr>
                 | Some existing \<Rightarrow> existing);
              store = (\<lambda>sc. cm\<lparr>session_contexts :=
                                  AList.update session_id sc (session_contexts cm)\<rparr>)
          in case map_of context ''timestamp'' of
               None \<Rightarrow> (Some (KeyError ''timestamp''), store session_context)
             | Some ts \<Rightarrow>
                 (case map_of context ''user_request'' of
                    None \<Rightarrow> (Some (KeyError ''user_request''), store session_context)
                  | Some request \<Rightarrow>
                      let session_context =
                            session_context\<lparr>history :=
                              history session_context @ [history_entry ts request tool_results]\<rparr>;
                          session_context =
                            session_context\<lparr>recent_tools :=
                              fold (\<lambda>result recent.
                                      if tool_name result \<notin> set recent
                                      then recent @ [tool_name result] else recent)
                                   tool_results (recent_tools session_context)\<rparr>;
                          session_context =
                            session_context\<lparr>recent_tools :=
                              slice_from_neg 10 (recent_tools session_context)\<rparr>;
                          session_context =
                            (if int (length (history session_context)) > max_history_size cm
                             then session_context\<lparr>history :=
                                    slice_from_neg (max_history_size cm)
                                      (history session_context)\<rparr>
                             else session_context);
                          (raised, prefs) =
                            extract_preferences env context tool_results
                              (preferences session_context)
                      in (raised, store (session_context\<lparr>preferences := prefs\<rparr>))))"

section \<open>Intelligent agent\<close>

definition conversational_patterns :: "string list" where
  "conversational_patterns =
     [''hi'', ''hello'', ''hey'', ''what model are you'', ''who are you'', ''what are you'',
      ''how are you'', ''what can you do'', ''what do you do'', ''help'', ''thank you'',
      ''thanks'', ''bye'', ''goodbye'', ''what'' @ [CHR 0x27] @ ''s your name'',
      ''introduce yourself'', ''tell me about yourself'', ''what are your capabilities'',
      ''how do you work'']"

definition data_request_keywords :: "string list" where
  "data_request_keywords =
     [''table'', ''data'', ''query'', ''search'', ''find'', ''show'', ''get'', ''list'',
      ''database'', ''snowflake'']"

text \<open>\<open>IntelligentAgent._is_conversational_request\<close>.\<close>

definition is_conversational_request :: "string \<Rightarrow> bool" where
  "is_conversational_request user_request =
     (let request_lower = py_strip (py_lower user_request) in
      if list_ex (\<lambda>pattern. py_in pattern request_lower) conversational_patterns then True
      else if py_split_len request_lower \<le> 3
              \<and> \<not> list_ex (\<lambda>keyword. py_in keyword request_lower) data_request_keywords
           then True
      else False)"

definition default_greeting :: string where
  "default_greeting =
     ''Hello! I'' @ [CHR 0x27] @ ''m an AI assistant that can help you with database queries, document searches, data analysis, and more. How can I assist you today?''"

text \<open>
  \<open>IntelligentAgent._generate_conversational_response\<close>: one request to the backend;
  an exception is answered by the fixed greeting.
\<close>

definition generate_conversational_response ::
  "Env \<Rightarrow> string \<Rightarrow> pydict \<Rightarrow> trace \<Rightarrow> string option \<times> trace" where
  "generate_conversational_response env user_request context tr =
     (let call = ConversationalCall user_request in
      case llm env tr call of
        LLMRaises e \<Rightarrow> (Some default_greeting, tr @ [LLMRequest call])
      | LLMContent content \<Rightarrow> (content, tr @ [LLMRequest call]))"

text \<open>\<open>IntelligentAgent._extract_basic_parameters\<close>.\<close>

definition extract_basic_parameters :: "string \<Rightarrow> pydict \<Rightarrow> pydict" where
  "extract_basic_parameters user_request context =
     (let params = [];
          params =
            (if has_key context ''user_id''
             then dict_set params ''user_id'' (dict_get context ''user_id'') else params);
          params =
            (if has_key context ''date''
             then dict_set params ''date'' (dict_get context ''date'') else params)
      in dict_set params ''query'' (PStr user_request))"

text \<open>
  \<open>IntelligentAgent._get_tool_actions_from_llm\<close>: one request to the backend; when the
  backend raises, answers without content, or the reply yields no action list, one action
  per recommended tool is built for the first three of them, with priorities 1, 2, 3.
\<close>

definition get_tool_actions_from_llm ::
  "Env \<Rightarrow> string \<Rightarrow> (Tool \<times> real) list \<Rightarrow> pydict \<Rightarrow> trace \<Rightarrow> ToolAction list \<times> trace" where
  "get_tool_actions_from_llm env user_request recommended_tools context tr =
     (let tools_info =
            map (\<lambda>entry. (name (capabilities (fst entry)), snd entry)) recommended_tools;
          call = PlanCall user_request tools_info context;
          parsed =
            (case llm env tr call of
               LLMRaises e \<Rightarrow> None
             | LLMContent None \<Rightarrow> None
             | LLMContent (Some response_text) \<Rightarrow> parse_actions env response_text)
      in case parsed of
           Some tool_actions \<Rightarrow> (tool_actions, tr @ [LLMRequest call])
         | None \<Rightarrow>
             (map (\<lambda>entry.
                     \<lparr>action_tool_name = name (capabilities (fst (snd entry))),
                      action_parameters = extract_basic_parameters user_request context,
                      priority = int (fst entry) + 1\<rparr>)
                  (enumerate 0 (take 3 recommended_tools)),
              tr @ [LLMRequest call]))"

text \<open>\<open>IntelligentAgent._analyze_and_select_tools\<close>.\<close>

definition analyze_and_select_tools ::
  "Env \<Rightarrow> ToolSelector \<Rightarrow> ToolRegistry \<Rightarrow> string \<Rightarrow> pydict \<Rightarrow> trace
     \<Rightarrow> (exn + ToolAction list) \<times> trace" where
  "analyze_and_select_tools env sel reg user_request context tr =
     (case select_tools sel reg user_request context of
        Inl e \<Rightarrow> (Inl e, tr)
      | Inr recommended_tools \<Rightarrow>
          if recommended_tools = [] then (Inr [], tr)
          else (case get_tool_actions_from_llm env user_request recommended_tools context tr of
                  (tool_actions, tr') \<Rightarrow> (Inr tool_actions, tr')))"

text \<open>
  The body of the \<open>for\<close> loop of \<open>_execute_tools\<close> over the sorted actions. The state is
  the result list, the context dictionary and the effects so far.
\<close>

definition error_result :: "ToolAction \<Rightarrow> exn \<Rightarrow> ToolResult" where
  "error_result action e =
     \<lparr>tool_name = action_tool_name action, status = ERROR, data = PNone,
      error = Some (exn_str e)\<rparr>"

fun execute_actions ::
  "ToolRegistry \<Rightarrow> ToolAction list \<Rightarrow> ToolResult list \<times> pydict \<times> trace
     \<Rightarrow> ToolResult list \<times> pydict \<times> trace" where
  "execute_actions reg [] (results, context, tr) = (results, context, tr)"
| "execute_actions reg (action # rest) (results, context, tr) =
     (case get_tool reg (action_tool_name action) of
        None \<Rightarrow> execute_actions reg rest (results, context, tr)
      | Some tool \<Rightarrow>
          (case validate_parameters tool (action_parameters action) of
             Inl e \<Rightarrow> execute_actions reg rest (results @ [error_result action e], context, tr)
           | Inr validated_params \<Rightarrow>
               (case execute tool tr validated_params of
                  Inl e \<Rightarrow>
                    execute_actions reg rest
                      (results @ [error_result action e], context,
                       tr @ [ToolExecution action validated_params context])
                | Inr result \<Rightarrow>
                    execute_actions reg rest
                      (results @ [result],
                       dict_set context (''tool_result_'' @ action_tool_name action) (data result),
                       tr @ [ToolExecution action validated_params context]))))"

text \<open>\<open>IntelligentAgent._execute_tools\<close>; \<open>sorted\<close> is a stable ascending sort.\<close>

definition execute_tools ::
  "ToolRegistry \<Rightarrow> ToolAction list \<Rightarrow> pydict \<Rightarrow> trace \<Rightarrow> ToolResult list \<times> pydict \<times> trace" where
  "execute_tools reg tool_actions context tr =
     (let sorted_actions = sort_key priority tool_actions
      in execute_actions reg sorted_actions ([], context, tr))"

text \<open>
  \<open>IntelligentAgent._has_sufficient_information\<close>. A reply without content makes
  \<open>.strip()\<close> raise, which the handler treats like a failed request.
\<close>

definition has_sufficient_information ::
  "Env \<Rightarrow> string \<Rightarrow> ToolResult list \<Rightarrow> pydict \<Rightarrow> trace \<Rightarrow> bool \<times> trace" where
  "has_sufficient_information env user_request tool_results context tr =
     (if tool_results = [] then (False, tr)
      else
        let successful_results = filter (\<lambda>r. status r = SUCCESS) tool_results in
        if successful_results = [] then (False, tr)
        else
          let results_summary = map (\<lambda>r. (tool_name r, truthy (data r))) successful_results;
              call = SufficiencyCall user_request results_summary
          in case llm env tr call of
               LLMRaises e \<Rightarrow> (length successful_results > 0, tr @ [LLMRequest call])
             | LLMContent None \<Rightarrow> (length successful_results > 0, tr @ [LLMRequest call])
             | LLMContent (Some content) \<Rightarrow>
                 (py_startswith (py_upper (py_strip content)) ''YES'', tr @ [LLMRequest call]))"

text \<open>\<open>IntelligentAgent._generate_response\<close>: the synthesis request.\<close>

definition generate_response ::
  "Env \<Rightarrow> string \<Rightarrow> ToolResult list \<Rightarrow> pydict \<Rightarrow> trace \<Rightarrow> string option \<times> trace" where
  "generate_response env user_request tool_results context tr =
     (let results_summary =
            map (\<lambda>r. (tool_name r, status_value (status r),
                       (if status r = SUCCESS then data r else PNone),
                       (if status r = ERROR then error r else None)))
                tool_results;
          call = SynthesizeCall user_request results_summary context
      in case llm env tr call of
           LLMRaises e \<Rightarrow>
             (Some (''I processed your request using ''
                      @ py_str env (PInt (int (length tool_results)))
                      @ '' tools, but encountered an error generating the final response. The tools executed successfully and gathered the requested information.''),
              tr @ [LLMRequest call])
         | LLMContent content \<Rightarrow> (content, tr @ [LLMRequest call]))"

text \<open>
  The orchestration loop of \<open>process_request\<close>. Its variables are the accumulated
  results and actions, the context manager and the effects so far. One pass through the
  loop body either leaves the loop (\<open>break\<close>), raises, or goes on to the next test of the
  loop condition.
\<close>

definition max_iterations :: nat where
  "max_iterations = 3"

type_synonym loop_state = "ToolResult list \<times> ToolAction list \<times> ContextManager \<times> trace"

datatype loop_step = Break loop_state | Raise exn loop_state | Continue loop_state

definition previous_results :: "ToolResult list \<Rightarrow> pyval" where
  "previous_results all_tool_results =
     PList (map (\<lambda>r. PDict [(''tool'', PStr (tool_name r)),
                              (''status'', PStr (status_value (status r))),
                              (''has_data'', PBool (truthy (data r)))])
                all_tool_results)"

definition loop_body ::
  "Env \<Rightarrow> ToolSelector \<Rightarrow> ToolRegistry \<Rightarrow> string \<Rightarrow> pydict \<Rightarrow> nat \<Rightarrow> loop_state
     \<Rightarrow> loop_step" where
  "loop_body env sel reg user_request context iteration st =
     (case st of (all_tool_results, all_tool_actions, cm, tr) \<Rightarrow>
        let tr = tr @ [IterationLog iteration];
            current_context =
              dict_set context ''previous_results'' (previous_results all_tool_results)
        in case analyze_and_select_tools env sel reg user_request current_context tr of
             (Inl e, tr) \<Rightarrow> Raise e (all_tool_results, all_tool_actions, cm, tr)
           | (Inr tool_actions, tr) \<Rightarrow>
               if tool_actions = [] then Break (all_tool_results, all_tool_actions, cm, tr)
               else
                 (case execute_tools reg tool_actions current_context tr of
                    (tool_results, current_context, tr) \<Rightarrow>
                      let all_tool_results = all_tool_results @ tool_results;
                          all_tool_actions = all_tool_actions @ tool_actions
                      in case has_sufficient_information env user_request all_tool_results
                                current_context tr of
                           (sufficient, tr) \<Rightarrow>
                             if sufficient
                             then Break (all_tool_results, all_tool_actions, cm, tr)
                             else
                               (case update_context cm env (clock env tr) context tool_results of
                                  (Some e, cm) \<Rightarrow>
                                    Raise e (all_tool_results, all_tool_actions, cm, tr)
                                | (None, cm) \<Rightarrow>
                                    Continue (all_tool_results, all_tool_actions, cm, tr))))"

text \<open>
  \<open>while iteration < max_iterations: iteration += 1; ...\<close>. The result is the exception
  that left the loop, if any, the final value of \<open>iteration\<close> and the final state.
\<close>

function tool_loop ::
  "Env \<Rightarrow> ToolSelector \<Rightarrow> ToolRegistry \<Rightarrow> string \<Rightarrow> pydict \<Rightarrow> nat \<Rightarrow> loop_state
     \<Rightarrow> exn option \<times> nat \<times> loop_state" where
  "tool_loop env sel reg user_request context iteration st =
     (if iteration < max_iterations then
        (case loop_body env sel reg user_request context (iteration + 1) st of
           Break st' \<Rightarrow> (None, iteration + 1, st')
         | Raise e st' \<Rightarrow> (Some e, iteration + 1, st')
         | Continue st' \<Rightarrow> tool_loop env sel reg user_request context (iteration + 1) st')
      else (None, iteration, st))"
  by pat_completeness auto
termination
  by (relation "measure (\<lambda>(env, sel, reg, user_request, context, iteration, st).
                           max_iterations - iteration)") auto

declare tool_loop.simps [simp del]

text \<open>
  The dictionary \<open>process_request\<close> returns. The keys \<open>tool_results\<close> and
  \<open>tool_actions\<close> are absent from the error response, the key \<open>error\<close> from the others.
\<close>

record Response =
  resp_response :: "string option"
  resp_status :: string
  resp_tool_results :: "ToolResult list option"
  resp_tool_actions :: "ToolAction list option"
  resp_context :: pydict
  resp_timestamp :: string
  resp_error :: "string option"

definition error_response :: "Env \<Rightarrow> exn \<Rightarrow> pydict \<Rightarrow> trace \<Rightarrow> Response" where
  "error_response env e context tr =
     \<lparr>resp_response =
        Some (''I encountered an error while processing your request: '' @ exn_str e),
      resp_status = ''error'',
      resp_tool_results = None,
      resp_tool_actions = None,
      resp_context = context,
      resp_timestamp = clock env tr,
      resp_error = Some (exn_str e)\<rparr>"

text \<open>
  \<open>IntelligentAgent.process_request\<close>. The agent's state is its context manager; the
  selector and the registry do not change during a request. \<open>build_context\<close> is called
  without a session id.
\<close>

definition process_request ::
  "Env \<Rightarrow> ToolSelector \<Rightarrow> ToolRegistry \<Rightarrow> ContextManager \<Rightarrow> string \<Rightarrow> string option
     \<Rightarrow> pydict option \<Rightarrow> trace \<Rightarrow> Response \<times> ContextManager \<times> trace" where
  "process_request env sel reg cm user_request user_id additional_context tr =
     (let context =
            build_context cm env (clock env tr) user_request user_id None
              (Some (case additional_context of None \<Rightarrow> [] | Some extra \<Rightarrow> extra))
      in if is_conversational_request user_request then
           (case generate_conversational_response env user_request context tr of
              (response, tr) \<Rightarrow>
                (\<lparr>resp_response = response, resp_status = ''conversational'',
                  resp_tool_results = Some [], resp_tool_actions = Some [],
                  resp_context = context, resp_timestamp = clock env tr, resp_error = None\<rparr>,
                 cm, tr))
         else
           (case tool_loop env sel reg user_request context 0 ([], [], cm, tr) of
              (Some e, iteration, all_tool_results, all_tool_actions, cm, tr) \<Rightarrow>
                (error_response env e context tr, cm, tr)
            | (None, iteration, all_tool_results, all_tool_actions, cm, tr) \<Rightarrow>
                if all_tool_results = [] then
                  (case generate_conversational_response env user_request context tr of
                     (response, tr) \<Rightarrow>
                       (\<lparr>resp_response = response, resp_status = ''conversational_fallback'',
                         resp_tool_results = Some [], resp_tool_actions = Some [],
                         resp_context = context, resp_timestamp = clock env tr,
                         resp_error = None\<rparr>,
                        cm, tr))
                else
                  (case generate_response env user_request all_tool_results context tr of
                     (final_response, tr) \<Rightarrow>
                       (case update_context cm env (clock env tr) context all_tool_results of
                          (Some e, cm) \<Rightarrow> (error_response env e context tr, cm, tr)
                        | (None, cm) \<Rightarrow>
                            (\<lparr>resp_response = final_response, resp_status = ''success'',
                              resp_tool_results = Some all_tool_results,
                              resp_tool_actions = Some all_tool_actions,
                              resp_context = context, resp_timestamp = clock env tr,
                              resp_error = None\<rparr>,
                             cm, tr)))))"

section \<open>Tool instances of the repository\<close>

text \<open>
  The capabilities of \<open>SnowflakeTool\<close>, which inherits \<open>should_use\<close> from \<open>BaseTool\<close>,
  and of \<open>MCPDatabaseTool\<close>, which overrides it. The parameter schemas are abridged to
  the parameter names. The operations of the two instances stand for tools that are not
  connected; scoring does not use them.
\<close>

definition snowflake_capabilities :: ToolCapability where
  "snowflake_capabilities =
     \<lparr>name = ''snowflake_query'',
      description =
        ''Execute SQL queries against Snowflake data warehouse to retrieve and analyze data'',
      parameters = [(''query'', PDict []), (''parameters'', PDict []), (''limit'', PDict [])],
      use_cases =
        [''Query user activity data'', ''Retrieve historical analytics'',
         ''Get aggregated metrics'', ''Extract data for recommendations'',
         ''Analyze user behavior patterns'', ''Generate reports from warehouse data'',
         ''List available tables and schemas'', ''Show database structure'',
         ''Describe table information''],
      data_sources = [''Snowflake Data Warehouse'', ''LUMEN_PROD database''],
      prerequisites = [],
      confidence_keywords =
        [''data'', ''query'', ''sql'', ''database'', ''analytics'', ''metrics'',
         ''snowflake'', ''warehouse'', ''reports'', ''activity'', ''users'',
         ''tables'', ''table'', ''schema'', ''schemas'', ''columns'', ''available'',
         ''list'', ''show'', ''describe'', ''information'', ''structure'']\<rparr>"

definition snowflake_tool :: Tool where
  "snowflake_tool =
     \<lparr>tool_class = DefaultTool, enabled = True, is_configured = False,
      capabilities = snowflake_capabilities,
      validate_parameters = (\<lambda>params. Inr params),
      execute = (\<lambda>tr params. Inl (ToolError ''not connected''))\<rparr>"

definition mcp_database_capabilities :: ToolCapability where
  "mcp_database_capabilities =
     \<lparr>name = ''database_query'',
      description = ''Retrieve user data from database using predefined queries'',
      parameters = [(''user_id'', PDict []), (''date'', PDict []), (''query_type'', PDict [])],
      use_cases =
        [''user_activity'', ''historical_data'', ''preferences'', ''weekly_summary'',
         ''user_metrics'', ''activity_logs'', ''user_behavior''],
      data_sources = [''postgresql'', ''mysql'', ''database''],
      prerequisites = [''database_connection''],
      confidence_keywords =
        [''user'', ''activity'', ''data'', ''history'', ''database'', ''query'',
         ''metrics'', ''preferences'', ''summary'', ''trends'']\<rparr>"

text \<open>An \<open>MCPDatabaseTool\<close> constructed with \<open>{"enabled": False}\<close>.\<close>

definition disabled_mcp_database_tool :: Tool where
  "disabled_mcp_database_tool =
     \<lparr>tool_class = MCPDatabaseTool, enabled = False, is_configured = False,
      capabilities = mcp_database_capabilities,
      validate_parameters = (\<lambda>params. Inr params),
      execute = (\<lambda>tr params. Inl (ToolError ''not connected''))\<rparr>"

section \<open>The scoring formula as specified\<close>

definition clamp :: "real \<Rightarrow> real \<Rightarrow> real \<Rightarrow> real" where
  "clamp x lo hi = max lo (min hi x)"

text \<open>The number of prerequisite entries that are not keys of the context.\<close>

definition missing_prerequisites :: "ToolCapability \<Rightarrow> pydict \<Rightarrow> nat" where
  "missing_prerequisites caps context =
     (\<Sum>prereq\<leftarrow>prerequisites caps. if has_key context prereq then 0 else 1)"

text \<open>
  The formula with \<open>U\<close> and \<open>K\<close> counting the phrases that are themselves substrings of
  the lower-cased intent.
\<close>

definition literal_phrase_score :: "ToolCapability \<Rightarrow> string \<Rightarrow> pydict \<Rightarrow> real" where
  "literal_phrase_score caps intent context =
     (let U = (\<Sum>phrase\<leftarrow>use_cases caps. if py_in phrase (py_lower intent) then 1 else 0 :: nat);
          K = (\<Sum>keyword\<leftarrow>confidence_keywords caps.
                 if py_in keyword (py_lower intent) then 1 else 0 :: nat);
          T = length (use_cases caps) + length (confidence_keywords caps);
          base = (if T = 0 then 1 / 10 else real (U + K) / real T)
      in clamp (base - (2 / 10) * real (missing_prerequisites caps context)) 0 1)"

text \<open>
  The formula with \<open>U\<close> and \<open>K\<close> counting the phrases whose lower-cased form is a
  substring of the lower-cased intent.
\<close>

definition lowered_phrase_score :: "ToolCapability \<Rightarrow> string \<Rightarrow> pydict \<Rightarrow> real" where
  "lowered_phrase_score caps intent context =
     (let U = (\<Sum>phrase\<leftarrow>use_cases caps.
                 if py_in (py_lower phrase) (py_lower intent) then 1 else 0 :: nat);
          K = (\<Sum>keyword\<leftarrow>confidence_keywords caps.
                 if py_in (py_lower keyword) (py_lower intent) then 1 else 0 :: nat);
          T = length (use_cases caps) + length (confidence_keywords caps);
          base = (if T = 0 then 1 / 10 else real (U + K) / real T)
      in clamp (base - (2 / 10) * real (missing_prerequisites caps context)) 0 1)"

section \<open>Observations on the effects of a run\<close>

fun is_iteration_log :: "event \<Rightarrow> bool" where
  "is_iteration_log (IterationLog n) = True"
| "is_iteration_log e = False"

fun is_tool_execution :: "event \<Rightarrow> bool" where
  "is_tool_execution (ToolExecution action params context) = True"
| "is_tool_execution e = False"

fun is_synthesis_request :: "event \<Rightarrow> bool" where
  "is_synthesis_request (LLMRequest (SynthesizeCall request summary context)) = True"
| "is_synthesis_request e = False"

fun is_llm_request :: "event \<Rightarrow> bool" where
  "is_llm_request (LLMRequest call) = True"
| "is_llm_request e = False"

text \<open>The action an execution serves and the context dictionary it saw.\<close>

fun executed_action :: "event \<Rightarrow> ToolAction option" where
  "executed_action (ToolExecution action params context) = Some action"
| "executed_action e = None"

fun execution_context :: "event \<Rightarrow> pydict" where
  "execution_context (ToolExecution action params context) = context"
| "execution_context e = []"

text \<open>
  Whether the executor gets as far as calling \<open>execute\<close> for an action: its tool is
  registered and its parameters pass validation.
\<close>

definition reaches_execute :: "ToolRegistry \<Rightarrow> ToolAction \<Rightarrow> bool" where
  "reaches_execute reg action =
     (case get_tool reg (action_tool_name action) of
        None \<Rightarrow> False
      | Some tool \<Rightarrow>
          (case validate_parameters tool (action_parameters action) of
             Inl e \<Rightarrow> False
           | Inr validated_params \<Rightarrow> True))"

section \<open>A small installation for worked examples\<close>

text \<open>
  Two tools with the default scorer and the keyword \<open>show\<close>: \<open>lookup\<close> returns one row,
  \<open>broken\<close> raises an exception that carries no message, as \<open>raise RuntimeError()\<close> or an
  \<open>asyncio.TimeoutError\<close> does.
\<close>

definition example_capabilities :: "string \<Rightarrow> ToolCapability" where
  "example_capabilities tname =
     \<lparr>name = tname, description = [], parameters = [], use_cases = [], data_sources = [],
      prerequisites = [], confidence_keywords = [''show'']\<rparr>"

definition lookup_tool :: Tool where
  "lookup_tool =
     \<lparr>tool_class = DefaultTool, enabled = True, is_configured = False,
      capabilities = example_capabilities ''lookup'',
      validate_parameters = (\<lambda>params. Inr params),
      execute = (\<lambda>tr params.
                   Inr \<lparr>tool_name = ''lookup'', status = SUCCESS,
                        data = PDict [(''rows'', PInt 1)], error = None\<rparr>)\<rparr>"

definition broken_tool :: Tool where
  "broken_tool =
     \<lparr>tool_class = DefaultTool, enabled = True, is_configured = False,
      capabilities = example_capabilities ''broken'',
      validate_parameters = (\<lambda>params. Inr params),
      execute = (\<lambda>tr params. Inl (ToolError []))\<rparr>"

definition example_registry :: ToolRegistry where
  "example_registry = register_tool (register_tool \<lparr>tools = []\<rparr> lookup_tool) broken_tool"

definition example_selector :: ToolSelector where
  "example_selector = \<lparr>min_confidence = 1 / 10\<rparr>"

text \<open>
  A backend that answers every planning request with the given actions, every
  sufficiency request with the given text, and the other two requests with fixed texts.
\<close>

definition scripted_env :: "ToolAction list \<Rightarrow> string \<Rightarrow> Env" where
  "scripted_env planned verdict =
     \<lparr>llm = (\<lambda>tr call.
                case call of
                  PlanCall request info context \<Rightarrow> LLMContent (Some ''[plan]'')
                | SufficiencyCall request summary \<Rightarrow> LLMContent (Some verdict)
                | SynthesizeCall request summary context \<Rightarrow> LLMContent (Some ''answer'')
                | ConversationalCall request \<Rightarrow> LLMContent (Some ''hello'')),
      parse_actions = (\<lambda>reply. Some planned),
      re_search = (\<lambda>p request. None),
      date_offset = (\<lambda>now n. ''2024-01-01''),
      dateutil_parse = (\<lambda>date_str. None),
      py_str = (\<lambda>v. ''?''),
      clock = (\<lambda>tr. ''2024-01-01T00:00:00'')\<rparr>"

definition lookup_action :: "int \<Rightarrow> ToolAction" where
  "lookup_action p = \<lparr>action_tool_name = ''lookup'', action_parameters = [], priority = p\<rparr>"

definition broken_action :: "int \<Rightarrow> ToolAction" where
  "broken_action p = \<lparr>action_tool_name = ''broken'', action_parameters = [], priority = p\<rparr>"

definition unknown_action :: "int \<Rightarrow> ToolAction" where
  "unknown_action p = \<lparr>action_tool_name = ''missing'', action_parameters = [], priority = p\<rparr>"

definition failed_result :: ToolResult where
  "failed_result = \<lparr>tool_name = ''lookup'', status = ERROR, data = PNone, error = Some ''down''\<rparr>"

definition lookup_result :: ToolResult where
  "lookup_result =
     \<lparr>tool_name = ''lookup'', status = SUCCESS, data = PDict [(''rows'', PInt 1)], error = None\<rparr>"

text \<open>
  A context manager after one \<open>update_context\<close> call for a request that was built
  without a session id, so that its results are stored under the session \<open>default\<close>.
\<close>

definition example_timestamp :: string where
  "example_timestamp = ''2024-01-01T00:00:00''"

definition stored_context_manager :: ContextManager where
  "stored_context_manager =
     snd (update_context (new_context_manager 50) (scripted_env [] ''NO'') example_timestamp
            (build_context (new_context_manager 50) (scripted_env [] ''NO'') example_timestamp
               ''show data'' None None None)
            [lookup_result])"

section \<open>Specification-level notions\<close>

text \<open>
  The candidates of a ranking, in registration order: every enabled tool of the registry
  with its score, kept when the score reaches the threshold.
\<close>

definition scored_candidates ::
  "ToolRegistry \<Rightarrow> string \<Rightarrow> pydict \<Rightarrow> real \<Rightarrow> (Tool \<times> real) list" where
  "scored_candidates reg intent context min_conf =
     filter (\<lambda>entry. snd entry \<ge> min_conf)
       (map (\<lambda>tool. (tool, should_use tool intent context))
          (filter enabled (map snd (tools reg))))"

text \<open>
  The bounds on a session: the history within the cap, at most ten recent tools, no tool
  listed twice.
\<close>

definition session_bounded :: "int \<Rightarrow> SessionContext \<Rightarrow> bool" where
  "session_bounded cap s =
     (int (length (history s)) \<le> cap \<and> length (recent_tools s) \<le> 10
      \<and> distinct (recent_tools s))"

definition manager_bounded :: "ContextManager \<Rightarrow> bool" where
  "manager_bounded cm =
     list_all (\<lambda>entry. session_bounded (max_history_size cm) (snd entry)) (session_contexts cm)"

text \<open>
  A sequence of \<open>update_context\<close> calls, each with its clock reading, context and
  results; an exception raised by a call is caught by the caller and the next call runs
  on the state the failed call left.
\<close>

fun run_updates ::
  "Env \<Rightarrow> ContextManager \<Rightarrow> (string \<times> pydict \<times> ToolResult list) list \<Rightarrow> ContextManager" where
  "run_updates env cm [] = cm"
| "run_updates env cm ((now, context, tool_results) # calls) =
     run_updates env (snd (update_context cm env now context tool_results)) calls"

definition example_context :: pydict where
  "example_context =
     [(''user_request'', PStr ''show data''), (''timestamp'', PStr example_timestamp),
      (''session_id'', PStr ''default'')]"

section \<open>Applicability scoring\<close>

lemma count_if: "(\<Sum>x\<leftarrow>xs. if P x then 1 else 0 :: nat) = length (filter P xs)"
  by (induction xs) auto

lemma count_if_not:
  "(\<Sum>x\<leftarrow>xs. if P x then 0 else 1 :: nat) = length (filter (\<lambda>x. \<not> P x) xs)"
  by (induction xs) auto

text \<open>The penalty loop adds 0.2 once per missing prerequisite.\<close>

lemma penalty_fold:
  "fold (\<lambda>prereq penalty. if \<not> has_key context prereq then penalty + 2 / 10 else penalty) ps a
     = a + (2 / 10) * real (length (filter (\<lambda>p. \<not> has_key context p) ps))"
  by (induction ps arbitrary: a) (auto simp: algebra_simps)

lemma clamp_min_max: "min 1 (max 0 x) = clamp x 0 1"
  by (simp add: clamp_def min_def max_def)

text \<open>The guard of \<open>BaseTool.should_use\<close>: a disabled tool scores 0 there.\<close>

lemma base_should_use_disabled: "\<not> enabled t \<Longrightarrow> base_should_use t intent context = 0"
  by (simp add: base_should_use_def)

text \<open>
  Claim C1 says that a disabled tool scores exactly 0 for every intent and context, also
  when its class overrides \<open>should_use\<close>. The override of \<open>MCPDatabaseTool\<close> calls the
  base scorer, which returns 0 for the disabled tool, and then adds its boosts without
  looking at \<open>enabled\<close>: a disabled instance whose context holds a user id and a date
  scores 0.3.
\<close>

theorem C1_disabled_mcp_tool_scores_positive:
  "\<not> enabled disabled_mcp_database_tool
   \<and> should_use disabled_mcp_database_tool ''get records''
         [(''user_id'', PStr ''u1''), (''date'', PStr ''2024-01-01'')] = 3 / 10"
  by (simp add: should_use_def mcp_should_use_def base_should_use_def
      disabled_mcp_database_tool_def mcp_database_capabilities_def py_lower_def
      lower_char_def Let_def has_key_def dict_get_def dict_get_or_def count_matches_def)

text \<open>
  Claim C2, amended: for an enabled tool with the default scorer the score is
  \<open>clamp(base - 0.2 * missing, 0, 1)\<close>, where \<open>missing\<close> counts the prerequisite entries
  absent from the context, \<open>base\<close> is 0.1 when the tool has no use cases and no
  confidence keywords and \<open>(U + K) / T\<close> otherwise, and \<open>U\<close> and \<open>K\<close> count the use
  cases and keywords whose lower-cased form is a substring of the lower-cased intent.
\<close>

theorem C2_default_score:
  assumes "enabled t" and "tool_class t = DefaultTool"
  shows "should_use t intent context = lowered_phrase_score (capabilities t) intent context"
  using assms
  by (simp add: should_use_def base_should_use_def lowered_phrase_score_def Let_def
      missing_prerequisites_def count_if count_if_not penalty_fold clamp_min_max)

text \<open>The amended formula at the Snowflake tool, for a request that names a use case.\<close>

theorem C2_default_score_witness:
  "enabled snowflake_tool \<and> tool_class snowflake_tool = DefaultTool
   \<and> should_use snowflake_tool ''show database structure'' []
       = lowered_phrase_score (capabilities snowflake_tool) ''show database structure'' []"
proof -
  have e: "enabled snowflake_tool" by (simp add: snowflake_tool_def)
  have c: "tool_class snowflake_tool = DefaultTool" by (simp add: snowflake_tool_def)
  from C2_default_score [OF e c] e c show ?thesis by blast
qed

text \<open>
  Claim C2 as stated counts the phrases that are themselves substrings of the lower-cased
  intent. The use cases of the Snowflake tool start with a capital letter: the request
  \<open>show database structure\<close> matches the use case \<open>Show database structure\<close> in the code
  (score 5/31) and not in the stated formula (4/31).
\<close>

theorem C2_literal_phrase_counterexample:
  "enabled snowflake_tool \<and> tool_class snowflake_tool = DefaultTool
   \<and> should_use snowflake_tool ''show database structure'' [] = 5 / 31
   \<and> literal_phrase_score (capabilities snowflake_tool) ''show database structure'' [] = 4 / 31
   \<and> should_use snowflake_tool ''show database structure'' []
       \<noteq> literal_phrase_score (capabilities snowflake_tool) ''show database structure'' []"
proof -
  have e: "enabled snowflake_tool" by (simp add: snowflake_tool_def)
  have c: "tool_class snowflake_tool = DefaultTool" by (simp add: snowflake_tool_def)
  have code: "should_use snowflake_tool ''show database structure'' [] = 5 / 31"
    by code_simp
  have stated:
    "literal_phrase_score (capabilities snowflake_tool) ''show database structure'' [] = 4 / 31"
    by code_simp
  show ?thesis
    using e c by (simp add: code stated)
qed

section \<open>Sufficiency check\<close>

text \<open>
  Claim C4: when no result of the batch has status success (the empty batch included),
  \<open>_has_sufficient_information\<close> returns false and sends nothing to the backend: the
  effects are unchanged, whatever the backend is.
\<close>

theorem C4_no_success_is_insufficient:
  assumes "\<forall>r \<in> set tool_results. status r \<noteq> SUCCESS"
  shows "has_sufficient_information env user_request tool_results context tr = (False, tr)"
proof -
  from assms have "filter (\<lambda>r. status r = SUCCESS) tool_results = []"
    by (simp add: filter_empty_conv)
  then show ?thesis by (simp add: has_sufficient_information_def)
qed

text \<open>
  With a backend that would answer \<open>YES\<close>: a batch holding one failed result is
  insufficient and the backend is not asked, while a batch holding a successful result
  is sent to the backend and found sufficient.
\<close>

theorem C4_no_success_is_insufficient_witness:
  "status failed_result \<noteq> SUCCESS
   \<and> has_sufficient_information (scripted_env [] ''YES'') ''show data'' [failed_result] [] []
       = (False, [])
   \<and> has_sufficient_information (scripted_env [] ''YES'') ''show data'' [lookup_result] [] []
       = (True, [LLMRequest (SufficiencyCall ''show data'' [(''lookup'', True)])])"
proof -
  have h: "\<forall>r \<in> set [failed_result]. status r \<noteq> SUCCESS"
    by (simp add: failed_result_def)
  have yes:
    "has_sufficient_information (scripted_env [] ''YES'') ''show data'' [lookup_result] [] []
       = (True, [LLMRequest (SufficiencyCall ''show data'' [(''lookup'', True)])])"
    by (simp add: has_sufficient_information_def lookup_result_def scripted_env_def
        py_startswith_def py_upper_def py_strip_def is_space_def upper_char_def)
  from C4_no_success_is_insufficient
         [OF h, of "scripted_env [] ''YES''" "''show data''" "[]" "[]"] h yes
  show ?thesis by simp
qed

section \<open>Conversational requests\<close>

lemma py_in_iff: "py_in p s \<longleftrightarrow> (\<exists>a b. s = a @ p @ b)"
proof (induction s)
  case Nil
  then show ?case by auto
next
  case (Cons c cs)
  show ?case
  proof
    assume "py_in p (c # cs)"
    then consider "prefix p (c # cs)" | "py_in p cs" by auto
    then show "\<exists>a b. c # cs = a @ p @ b"
    proof cases
      case 1
      then obtain b where "c # cs = p @ b" by (auto simp: prefix_def)
      then have "c # cs = [] @ p @ b" by simp
      then show ?thesis by blast
    next
      case 2
      with Cons.IH obtain a b where "cs = a @ p @ b" by blast
      then have "c # cs = (c # a) @ p @ b" by simp
      then show ?thesis by blast
    qed
  next
    assume "\<exists>a b. c # cs = a @ p @ b"
    then obtain a b where ab: "c # cs = a @ p @ b" by blast
    show "py_in p (c # cs)"
    proof (cases a)
      case Nil
      with ab have "prefix p (c # cs)" by (simp add: prefix_def)
      then show ?thesis by simp
    next
      case (Cons x a')
      with ab have "cs = a' @ p @ b" by simp
      with Cons.IH have "py_in p cs" by blast
      then show ?thesis by simp
    qed
  qed
qed

lemma dropWhile_keeps_block:
  assumes "p \<noteq> []" and "\<not> P (hd p)"
  shows "\<exists>a'. dropWhile P (a @ p @ b) = a' @ p @ b"
proof (induction a)
  case Nil
  from assms have "dropWhile P (p @ b) = p @ b"
    by (cases p) auto
  then have "dropWhile P ([] @ p @ b) = [] @ p @ b" by simp
  then show ?case by blast
next
  case (Cons x a)
  then obtain a' where a': "dropWhile P (a @ p @ b) = a' @ p @ b" by blast
  show ?case
  proof (cases "P x")
    case True
    with a' show ?thesis by auto
  next
    case False
    then have "dropWhile P ((x # a) @ p @ b) = (x # a) @ p @ b" by simp
    then show ?thesis by blast
  qed
qed

text \<open>Stripping keeps every occurrence of a phrase that has no whitespace at its ends.\<close>

lemma py_in_strip:
  assumes "py_in p s" and "p \<noteq> []" and "\<not> is_space (hd p)" and "\<not> is_space (last p)"
  shows "py_in p (py_strip s)"
proof -
  from assms(1) obtain a b where "s = a @ p @ b" by (auto simp: py_in_iff)
  with dropWhile_keeps_block [of p is_space a b] assms(2,3)
  obtain a' where 1: "dropWhile is_space s = a' @ p @ b" by blast
  have "rev p \<noteq> []" using assms(2) by simp
  moreover have "\<not> is_space (hd (rev p))" using assms(2,4) by (simp add: hd_rev)
  ultimately obtain b' where
    2: "dropWhile is_space (rev b @ rev p @ rev a') = b' @ rev p @ rev a'"
    using dropWhile_keeps_block [of "rev p" is_space "rev b" "rev a'"] by blast
  have "py_strip s = rev (dropWhile is_space (rev b @ rev p @ rev a'))"
    by (simp add: py_strip_def 1)
  also have "\<dots> = a' @ p @ rev b'" by (simp add: 2)
  finally show ?thesis by (auto simp: py_in_iff)
qed

text \<open>No conversational phrase is empty or starts or ends with whitespace.\<close>

lemma patterns_trimmed:
  "list_all (\<lambda>p. p \<noteq> [] \<and> \<not> is_space (hd p) \<and> \<not> is_space (last p)) conversational_patterns"
  by code_simp

lemma conversational_pattern_found:
  assumes "list_ex (\<lambda>pattern. py_in pattern (py_lower user_request)) conversational_patterns"
  shows "is_conversational_request user_request"
proof -
  from assms obtain p where p: "p \<in> set conversational_patterns"
    and "py_in p (py_lower user_request)"
    by (auto simp: list_ex_iff)
  moreover from p patterns_trimmed
  have "p \<noteq> [] \<and> \<not> is_space (hd p) \<and> \<not> is_space (last p)"
    by (auto simp: list_all_iff)
  ultimately have "py_in p (py_strip (py_lower user_request))"
    by (simp add: py_in_strip)
  with p have "list_ex (\<lambda>pattern. py_in pattern (py_strip (py_lower user_request)))
                 conversational_patterns"
    by (auto simp: list_ex_iff)
  then show ?thesis by (simp add: is_conversational_request_def Let_def)
qed

text \<open>
  Claim C9: when the lower-cased request contains one of the conversational phrases as a
  substring, \<open>process_request\<close> answers on the conversational path: the status is
  \<open>conversational\<close>, the tool results and tool actions are empty, the context manager is
  untouched and the only effect is the conversational request to the backend.
\<close>

theorem C9_pattern_forces_conversational_path:
  assumes "list_ex (\<lambda>pattern. py_in pattern (py_lower user_request)) conversational_patterns"
  shows "case process_request env sel reg cm user_request user_id additional_context tr of
           (resp, cm', tr') \<Rightarrow>
             resp_status resp = ''conversational''
             \<and> resp_tool_results resp = Some []
             \<and> resp_tool_actions resp = Some []
             \<and> cm' = cm
             \<and> tr' = tr @ [LLMRequest (ConversationalCall user_request)]"
  using conversational_pattern_found [OF assms]
  by (simp add: process_request_def generate_conversational_response_def Let_def
      split: llm_reply.splits)

text \<open>
  The request \<open>Shipping data by table\<close> holds \<open>hi\<close> inside \<open>Shipping\<close> and two of the
  data keywords, and is answered on the conversational path.
\<close>

theorem C9_pattern_forces_conversational_path_witness:
  "py_in ''hi'' (py_lower ''Shipping data by table'')
   \<and> list_ex (\<lambda>keyword. py_in keyword ''shipping data by table'') data_request_keywords
   \<and> (case process_request (scripted_env [lookup_action 1] ''NO'') example_selector
              example_registry (new_context_manager 50) ''Shipping data by table'' None None [] of
         (resp, cm', tr') \<Rightarrow>
           resp_status resp = ''conversational''
           \<and> resp_tool_results resp = Some []
           \<and> resp_tool_actions resp = Some []
           \<and> cm' = new_context_manager 50
           \<and> tr' = [] @ [LLMRequest (ConversationalCall ''Shipping data by table'')])"
proof -
  have h: "list_ex (\<lambda>pattern. py_in pattern (py_lower ''Shipping data by table''))
             conversational_patterns"
    by code_simp
  have a: "py_in ''hi'' (py_lower ''Shipping data by table'')" by code_simp
  have b: "list_ex (\<lambda>keyword. py_in keyword ''shipping data by table'') data_request_keywords"
    by code_simp
  from C9_pattern_forces_conversational_path [OF h,
      where env = "scripted_env [lookup_action 1] ''NO''" and sel = example_selector
        and reg = example_registry and cm = "new_context_manager 50" and user_id = None
        and additional_context = None and tr = "[]"] a b
  show ?thesis by blast
qed

section \<open>Building the request context\<close>

lemma has_key_iff: "has_key d k \<longleftrightarrow> k \<in> fst ` set d"
  by (simp add: has_key_def map_of_eq_None_iff)

lemma has_key_dict_set: "has_key (dict_set d k v) k' \<longleftrightarrow> k' = k \<or> has_key d k'"
  by (auto simp: has_key_def dict_set_def update_conv')

lemma keys_case_date:
  assumes "has_key (case x of None \<Rightarrow> e0
                    | Some d \<Rightarrow> (case y d of None \<Rightarrow> e0
                                 | Some p \<Rightarrow> if c p then dict_set (dict_set e0 k1 (f p)) k2 (g d)
                                            else e0)) k"
    and "\<And>k. has_key e0 k \<Longrightarrow> k \<in> K" and "k1 \<in> K" and "k2 \<in> K"
  shows "k \<in> K"
  using assms by (auto simp: has_key_dict_set split: option.splits if_splits)

lemma keys_case_user:
  assumes "has_key (case x of None \<Rightarrow> e | Some g \<Rightarrow> dict_set e k1 (f g)) k"
    and "\<And>k. has_key e k \<Longrightarrow> k \<in> K" and "k1 \<in> K"
  shows "k \<in> K"
  using assms by (auto simp: has_key_dict_set split: option.splits)

lemma keys_if:
  assumes "has_key (if b then e else dict_set e k1 v) k"
    and "\<And>k. has_key e k \<Longrightarrow> k \<in> K" and "k1 \<in> K"
  shows "k \<in> K"
  using assms by (auto simp: has_key_dict_set split: if_splits)

text \<open>The entity extractor writes four keys at most.\<close>

lemma extract_entities_keys:
  assumes "has_key (extract_entities env now user_request) k"
  shows "k \<in> {''date'', ''original_date_text'', ''extracted_user_id'', ''data_types''}"
  using assms unfolding extract_entities_def Let_def
  apply (rule keys_if)
   apply (erule keys_case_user)
    apply (erule keys_case_date)
      apply (simp add: has_key_def)
     apply simp
    apply simp
   apply simp
  apply simp
  done


lemma has_key_dict_update: "has_key (dict_update d e) k \<longleftrightarrow> has_key d k \<or> has_key e k"
proof -
  have "has_key (fold (\<lambda>kv acc. AList.update (fst kv) (snd kv) acc) e d) k
          \<longleftrightarrow> has_key d k \<or> k \<in> fst ` set e" for d
  proof (induction e arbitrary: d)
    case Nil
    then show ?case by simp
  next
    case (Cons kv e)
    have "has_key (AList.update (fst kv) (snd kv) d) k \<longleftrightarrow> k = fst kv \<or> has_key d k"
      using has_key_dict_set [of d "fst kv" "snd kv" k] by (simp add: dict_set_def)
    with Cons show ?case by auto
  qed
  then show ?thesis by (simp add: dict_update_def has_key_iff)
qed

lemma session_key_fresh:
  assumes "k \<in> {''conversation_history'', ''recent_tool_usage'', ''user_preferences''}"
  shows "k \<notin> {''user_request'', ''timestamp'', ''session_id'', ''user_id''}"
    and "k \<notin> {''date'', ''original_date_text'', ''extracted_user_id'', ''data_types''}"
  using assms by auto

lemma base_context_keys:
  "has_key [(a, x), (b, y), (c, z)] k \<longleftrightarrow> k \<in> {a, b, c}"
  by (auto simp: has_key_def)

lemma keys_user_id:
  assumes "has_key (case u of None \<Rightarrow> d
                    | Some uid \<Rightarrow> if uid \<noteq> [] then dict_set d key (f uid) else d) k"
  shows "has_key d k \<or> k = key"
  using assms by (auto simp: has_key_dict_set split: option.splits if_splits)

lemma build_context_session_keys:
  assumes "k \<in> {''conversation_history'', ''recent_tool_usage'', ''user_preferences''}"
  shows "has_key (build_context cm env now user_request user_id None additional_context) k
           = (case additional_context of None \<Rightarrow> False | Some extra \<Rightarrow> has_key extra k)"
proof -
  define c0 where "c0 = [(''user_request'', PStr user_request), (''timestamp'', PStr now),
                         (''session_id'', PStr ''default'')]"
  define c1 where "c1 = (case user_id of None \<Rightarrow> c0
               | Some uid \<Rightarrow> if uid \<noteq> [] then dict_set c0 ''user_id'' (PStr uid) else c0)"
  define c2 where "c2 = dict_update c1 (extract_entities env now user_request)"
  have empty: "\<not> has_key [] k" by (simp add: has_key_def)
  have n0: "\<not> has_key c0 k"
    unfolding c0_def base_context_keys using session_key_fresh(1) [OF assms] by blast
  have n1: "\<not> has_key c1 k"
    using keys_user_id [where u = user_id and d = c0 and key = "''user_id''" and f = PStr
        and k = k] n0 session_key_fresh(1) [OF assms]
    unfolding c1_def by blast
  have "\<not> has_key (extract_entities env now user_request) k"
    using extract_entities_keys [of env now user_request k] session_key_fresh(2) [OF assms]
    by blast
  with n1 have n2: "\<not> has_key c2 k" by (simp add: c2_def has_key_dict_update)
  have "build_context cm env now user_request user_id None additional_context
          = (case additional_context of None \<Rightarrow> c2
             | Some extra \<Rightarrow> if extra \<noteq> [] then dict_update c2 extra else c2)"
    unfolding c2_def c1_def c0_def by (simp add: build_context_def Let_def)
  then show ?thesis
    using n2 empty by (cases additional_context) (auto simp: has_key_dict_update)
qed

lemma process_request_context:
  "resp_context (fst (process_request env sel reg cm user_request user_id additional_context tr))
     = build_context cm env (clock env tr) user_request user_id None
         (Some (case additional_context of None \<Rightarrow> [] | Some extra \<Rightarrow> extra))"
  by (simp add: process_request_def Let_def error_response_def
      split: prod.splits option.splits)

text \<open>
  Claim C10: a context built without a session id holds the key \<open>conversation_history\<close>,
  \<open>recent_tool_usage\<close> or \<open>user_preferences\<close> exactly when the caller's additional
  context supplies it, whatever the context manager has stored; and the context that
  \<open>process_request\<close> returns is built in that way, so the same holds for it.
\<close>

theorem C10_session_state_never_read_back:
  assumes "k \<in> {''conversation_history'', ''recent_tool_usage'', ''user_preferences''}"
  shows "has_key (build_context cm env now user_request user_id None additional_context) k
           = (case additional_context of None \<Rightarrow> False | Some extra \<Rightarrow> has_key extra k)
         \<and> has_key (resp_context (fst (process_request env sel reg cm user_request user_id
                                         additional_context tr))) k
           = (case additional_context of None \<Rightarrow> False | Some extra \<Rightarrow> has_key extra k)"
proof -
  have "has_key (resp_context (fst (process_request env sel reg cm user_request user_id
                                         additional_context tr))) k
           = (case additional_context of None \<Rightarrow> False | Some extra \<Rightarrow> has_key extra k)"
    unfolding process_request_context build_context_session_keys [OF assms]
    by (cases additional_context) (simp_all add: has_key_def)
  with build_context_session_keys [OF assms] show ?thesis by blast
qed


text \<open>
  After an update has stored one history entry and the tool name under the session
  \<open>default\<close>, a context built for the session \<open>default\<close> by name holds the history, while
  a context built without a session id, and the context of a processed request, do not.
\<close>

theorem C10_session_state_never_read_back_witness:
  "''conversation_history'' \<in> {''conversation_history'', ''recent_tool_usage'', ''user_preferences''}
   \<and> map (\<lambda>entry. (fst entry, length (history (snd entry)), recent_tools (snd entry)))
         (session_contexts stored_context_manager) = [(KStr ''default'', 1, [''lookup''])]
   \<and> has_key (build_context stored_context_manager (scripted_env [] ''NO'') example_timestamp
                ''show data'' None (Some ''default'') None) ''conversation_history''
   \<and> has_key (build_context stored_context_manager (scripted_env [] ''NO'') example_timestamp
                ''show data'' None None None) ''conversation_history'' = False
   \<and> has_key (resp_context (fst (process_request (scripted_env [] ''NO'') example_selector
                  example_registry stored_context_manager ''show data'' None None [])))
         ''conversation_history'' = False"
proof -
  have h: "''conversation_history''
             \<in> {''conversation_history'', ''recent_tool_usage'', ''user_preferences''}"
    by simp
  have stored:
    "map (\<lambda>entry. (fst entry, length (history (snd entry)), recent_tools (snd entry)))
         (session_contexts stored_context_manager) = [(KStr ''default'', 1, [''lookup''])]"
    by code_simp
  have explicit:
    "has_key (build_context stored_context_manager (scripted_env [] ''NO'') example_timestamp
                ''show data'' None (Some ''default'') None) ''conversation_history''"
    by code_simp
  from C10_session_state_never_read_back [OF h, where cm = stored_context_manager
      and env = "scripted_env [] ''NO''" and now = example_timestamp
      and user_request = "''show data''" and user_id = None and additional_context = None
      and sel = example_selector and reg = example_registry and tr = "[]"]
  have "has_key (build_context stored_context_manager (scripted_env [] ''NO'') example_timestamp
                ''show data'' None None None) ''conversation_history'' = False
   \<and> has_key (resp_context (fst (process_request (scripted_env [] ''NO'') example_selector
                  example_registry stored_context_manager ''show data'' None None [])))
         ''conversation_history'' = False"
    by simp
  with h stored explicit show ?thesis by blast
qed

section \<open>Ranking tools for an intent\<close>

text \<open>The scoring loop keeps the tools at or above the threshold, in order.\<close>

lemma collect_scores:
  "fold (\<lambda>tool tool_scores.
           let confidence = f tool
           in if confidence \<ge> m then tool_scores @ [(tool, confidence)] else tool_scores)
        ts acc
     = acc @ filter (\<lambda>entry. snd entry \<ge> m) (map (\<lambda>tool. (tool, f tool)) ts)"
  by (induction ts arbitrary: acc) (simp_all add: Let_def)

lemma sort_reverse_set: "set (sort_reverse key xs) = set xs"
  by (simp add: sort_reverse_def)

lemma sort_reverse_descending:
  "sorted_wrt (\<lambda>a b. key a \<ge> key b) (sort_reverse key xs)"
proof -
  have "sorted (map key (sort_key key (rev xs)))" by (rule sorted_sort_key)
  then have "sorted_wrt (\<lambda>a b. key a \<le> key b) (sort_key key (rev xs))"
    by (simp add: sorted_wrt_map)
  then show ?thesis
    by (simp add: sort_reverse_def sorted_wrt_rev)
qed

lemma sort_reverse_stable:
  "filter (\<lambda>x. key x = k) (sort_reverse key xs) = filter (\<lambda>x. key x = k) xs"
  by (simp add: sort_reverse_def rev_filter [symmetric] sort_key_stable)

lemma enabled_tools: "map snd (get_enabled_tools reg) = filter enabled (map snd (tools reg))"
  by (simp add: get_enabled_tools_def filter_map comp_def)

lemma get_tools_for_intent_eq:
  "get_tools_for_intent reg intent context min_conf
     = sort_reverse snd (scored_candidates reg intent context min_conf)"
  by (simp add: get_tools_for_intent_def scored_candidates_def collect_scores enabled_tools)

text \<open>
  Claim C6: \<open>get_tools_for_intent\<close> returns exactly the enabled tools of the registry
  whose score is at least the threshold, each with its score; the list is in descending
  order of score; and the entries with one and the same score appear in the order of the
  registry, which is the order of registration.
\<close>

theorem C6_ranking_of_enabled_tools:
  "set (get_tools_for_intent reg intent context min_conf)
     = {(tool, should_use tool intent context) | tool.
          tool \<in> snd ` set (tools reg) \<and> enabled tool
          \<and> should_use tool intent context \<ge> min_conf}
   \<and> sorted_wrt (\<lambda>a b. snd a \<ge> snd b) (get_tools_for_intent reg intent context min_conf)
   \<and> (\<forall>score. filter (\<lambda>entry. snd entry = score)
                  (get_tools_for_intent reg intent context min_conf)
                = filter (\<lambda>entry. snd entry = score)
                    (scored_candidates reg intent context min_conf))"
proof -
  have "set (scored_candidates reg intent context min_conf)
     = {(tool, should_use tool intent context) | tool.
          tool \<in> snd ` set (tools reg) \<and> enabled tool
          \<and> should_use tool intent context \<ge> min_conf}"
    by (auto simp: scored_candidates_def)
  then show ?thesis
    by (simp add: get_tools_for_intent_eq sort_reverse_set sort_reverse_descending
        sort_reverse_stable)
qed

end
